theory Spec2Isabelle
  imports Complex_Main
begin

section \<open>JavaScript values used by the feature model\<close>

text \<open>
  Numbers are IEEE doubles in the program. The model keeps \<open>NaN\<close> and takes every
  other number as an exact rational: rounding and the infinities play no part in
  the behaviour studied here, \<open>NaN\<close> does.
\<close>

datatype jsnum = NaN | Fin rat

text \<open>
  A vertex is whatever value was stored in \<open>points\<close>: in this program an array
  \<open>[lng, lat]\<close>, possibly an object with numeric fields, or \<open>undefined\<close> when an
  index outside the array is read.
\<close>

datatype jsval =
    Undefined
  | Null
  | Num jsnum
  | Arr "jsval list"
  | Obj "(string \<times> jsnum) list"

text \<open>
  What can be thrown: a \<open>TypeError\<close> of the language, or the \<open>Error\<close> of a helper of
  \<open>@turf/helpers\<close> that refuses its coordinates.
\<close>

datatype error = TypeError | HelperError

text \<open>Identifiers: \<open>Date.now()\<close>, or whatever the host put in \<open>properties.id\<close>.\<close>

datatype jsid = IdUndefined | IdNull | IdNum int | IdStr string

fun num_add :: "jsnum \<Rightarrow> jsnum \<Rightarrow> jsnum" where
  "num_add (Fin a) (Fin b) = Fin (a + b)"
| "num_add _ _ = NaN"



text \<open>\<open>n / 2\<close>.\<close>

fun num_half :: "jsnum \<Rightarrow> jsnum" where
  "num_half (Fin a) = Fin (a / 2)"
| "num_half NaN = NaN"

text \<open>\<open>a < b\<close> and \<open>a > b\<close> on numbers: false as soon as one side is \<open>NaN\<close>.\<close>

fun num_lt :: "jsnum \<Rightarrow> jsnum \<Rightarrow> bool" where
  "num_lt (Fin a) (Fin b) = (a < b)"
| "num_lt _ _ = False"


text \<open>\<open>ToNumber\<close> of a property that is a number or missing (\<open>undefined\<close>).\<close>

fun to_number :: "jsnum option \<Rightarrow> jsnum" where
  "to_number None = NaN"
| "to_number (Some n) = n"

text \<open>\<open>ToBoolean\<close>: what \<open>p && prevP\<close> tests.\<close>

fun truthy :: "jsval \<Rightarrow> bool" where
  "truthy Undefined = False"
| "truthy Null = False"
| "truthy (Num NaN) = False"
| "truthy (Num (Fin r)) = (r \<noteq> 0)"
| "truthy (Arr _) = True"
| "truthy (Obj _) = True"

text \<open>
  \<open>v.k\<close> for a property name \<open>k\<close> that is not an array index. Reading a property
  of \<open>undefined\<close> or \<open>null\<close> throws; a number and an array have no such property; an
  array has \<open>length\<close>.
\<close>

fun get_prop :: "jsval \<Rightarrow> string \<Rightarrow> error + jsnum option" where
  "get_prop Undefined k = Inl TypeError"
| "get_prop Null k = Inl TypeError"
| "get_prop (Num n) k = Inr None"
| "get_prop (Arr xs) k =
     (if k = ''length'' then Inr (Some (Fin (of_nat (length xs)))) else Inr None)"
| "get_prop (Obj kvs) k = Inr (map_of kvs k)"

text \<open>\<open>xs[i]\<close> for an integer \<open>i\<close>: \<open>undefined\<close> outside the array.\<close>

definition nth_js :: "jsval list \<Rightarrow> int \<Rightarrow> jsval" where
  "nth_js xs i = (if 0 \<le> i \<and> i < int (length xs) then xs ! nat i else Undefined)"

text \<open>\<open>xs.splice(start, deleteCount, ...items)\<close>, the array after the call.\<close>

definition splice :: "'a list \<Rightarrow> int \<Rightarrow> int \<Rightarrow> 'a list \<Rightarrow> 'a list" where
  "splice xs start deleteCount items =
     (let len = int (length xs);
          s = (if start < 0 then max (len + start) 0 else min start len);
          d = min (max deleteCount 0) (len - s)
      in take (nat s) xs @ items @ drop (nat (s + d)) xs)"

text \<open>\<open>xs.slice(start, end)\<close>.\<close>

definition slice :: "'a list \<Rightarrow> int \<Rightarrow> int \<Rightarrow> 'a list" where
  "slice xs start end_ix =
     (let len = int (length xs);
          k = (if start < 0 then max (len + start) 0 else min start len);
          e = (if end_ix < 0 then max (len + end_ix) 0 else min end_ix len)
      in take (nat (e - k)) (drop (nat k) xs))"

text \<open>
  \<open>points < 3\<close> with \<open>points\<close> an array compares \<open>ToNumber(points.join(','))\<close>
  with 3. The joined text of two or more elements contains a comma and is no
  numeric literal, so its number is \<open>NaN\<close>. The empty array gives the empty text,
  whose number is 0. A single element gives the text of that element
  (\<open>undefined\<close> and \<open>null\<close> print as the empty text, a number prints as itself, an
  array as its own joined text, an object as \<open>[object Object]\<close>).
\<close>

fun array_to_number :: "jsval list \<Rightarrow> jsnum" where
  "array_to_number [] = Fin 0"
| "array_to_number [Undefined] = Fin 0"
| "array_to_number [Null] = Fin 0"
| "array_to_number [Num n] = n"
| "array_to_number [Arr ys] = array_to_number ys"
| "array_to_number [Obj kvs] = NaN"
| "array_to_number (x # y # zs) = NaN"

definition array_lt :: "jsval list \<Rightarrow> rat \<Rightarrow> bool" where
  "array_lt xs n = num_lt (array_to_number xs) (Fin n)"

section \<open>GeoJSON records\<close>

text \<open>
  The interchange record: a geometry (type tag with its coordinates) and a
  property bag, \<open>null\<close> or missing when \<open>None\<close>. \<open>fromFeature\<close> and the constructor
  read five things of the bag: the key \<open>id\<close> (\<open>undefined\<close> when absent), the keys
  \<open>type\<close>, \<open>points\<close> and \<open>isClosed\<close>, each absent or holding a value of the field
  it overrides, and the rest, which is passed through and never inspected.
\<close>

datatype geometry =
    Point jsval
  | LineString "jsval list"
  | Polygon "jsval list list"
  | Unsupported string

record 'p properties =
  prop_id :: jsid
  prop_type :: "string option"
  prop_points :: "jsval list option"
  prop_isClosed :: "bool option"
  prop_other :: 'p

record 'p geojson =
  geometry :: geometry
  properties :: "'p properties option"

text \<open>
  The helpers \<open>point\<close>, \<open>lineString\<close> and \<open>polygon\<close> of \<open>@turf/helpers\<close> build the
  record from coordinates and properties, or throw when they refuse the
  coordinates (\<open>polygon\<close> refuses a ring of fewer than four positions). They
  belong to a library outside this repository. The three functions below are
  the record a helper returns when it accepts; whether it accepts is the
  parameter of \<open>exported\<close>, after \<open>toFeature\<close>.
\<close>

definition point :: "jsval \<Rightarrow> 'p properties \<Rightarrow> 'p geojson" where
  "point c ps = \<lparr>geometry = Point c, properties = Some ps\<rparr>"

definition lineString :: "jsval list \<Rightarrow> 'p properties \<Rightarrow> 'p geojson" where
  "lineString cs ps = \<lparr>geometry = LineString cs, properties = Some ps\<rparr>"

definition polygon :: "jsval list list \<Rightarrow> 'p properties \<Rightarrow> 'p geojson" where
  "polygon rings ps = \<lparr>geometry = Polygon rings, properties = Some ps\<rparr>"

section \<open>The class Feature\<close>

text \<open>\<open>isClosed\<close> is \<open>undefined\<close> (\<open>None\<close>) until it is given or set.\<close>

record 'p feature =
  feature_id :: jsid
  ftype :: string
  points :: "jsval list"
  isClosed :: "bool option"
  otherProps :: 'p

text \<open>
  The object literal handed to the constructor, and the constructor: the bag
  is spread after the fields \<open>fromFeature\<close> sets, so a key \<open>type\<close>, \<open>points\<close> or
  \<open>isClosed\<close> of the bag wins over them; the constructor takes these keys and
  \<open>id\<close> out of the bag and keeps the rest as \<open>otherProps\<close>.
\<close>

definition new_Feature ::
  "'p properties \<Rightarrow> string \<Rightarrow> jsval list \<Rightarrow> bool option \<Rightarrow> 'p feature" where
  "new_Feature ps type pts isc =
     \<lparr>feature_id = prop_id ps,
      ftype = (case prop_type ps of None \<Rightarrow> type | Some t \<Rightarrow> t),
      points = (case prop_points ps of None \<Rightarrow> pts | Some p \<Rightarrow> p),
      isClosed = (case prop_isClosed ps of None \<Rightarrow> isc | Some b \<Rightarrow> Some b),
      otherProps = prop_other ps\<rparr>"

text \<open>
  \<open>fromFeature\<close>. Taking \<open>id\<close> out of properties that are \<open>null\<close> throws, before
  the type is looked at. \<open>coordinates[0].slice\<close> throws when the polygon has no
  ring. An unsupported geometry gives \<open>null\<close>.
\<close>

definition fromFeature :: "'p geojson \<Rightarrow> error + 'p feature option" where
  "fromFeature g =
     (case properties g of
        None \<Rightarrow> Inl TypeError
      | Some ps \<Rightarrow>
          (case geometry g of
             Point c \<Rightarrow> Inr (Some (new_Feature ps ''Point'' [c] None))
           | LineString cs \<Rightarrow> Inr (Some (new_Feature ps ''LineString'' cs None))
           | Polygon rings \<Rightarrow>
               (case rings of
                  [] \<Rightarrow> Inl TypeError
                | ring # _ \<Rightarrow>
                    Inr (Some (new_Feature ps ''Polygon'' (slice ring 0 (- 1)) (Some True))))
           | Unsupported t \<Rightarrow> Inr None))"

text \<open>
  The methods return the success flag and the object after the call. An index
  is an integer.
\<close>

definition addPoint :: "'p feature \<Rightarrow> jsval \<Rightarrow> bool \<times> 'p feature" where
  "addPoint f pt = (True, f\<lparr>points := points f @ [pt]\<rparr>)"

definition removePoint :: "'p feature \<Rightarrow> int \<Rightarrow> bool \<times> 'p feature" where
  "removePoint f index =
     (if index \<ge> 0 \<and> index < int (length (points f)) then
        let pts = splice (points f) index 1 [];
            f1 = f\<lparr>points := pts\<rparr>;
            f2 = (if length pts < 3 then f1\<lparr>isClosed := Some False\<rparr> else f1)
        in (True, f2)
      else (False, f))"

definition replacePoint :: "'p feature \<Rightarrow> int \<Rightarrow> jsval \<Rightarrow> bool \<times> 'p feature" where
  "replacePoint f index pt =
     (if index \<ge> 0 \<and> index < int (length (points f)) then
        (True, f\<lparr>points := (points f)[nat index := pt]\<rparr>)
      else (False, f))"

text \<open>
  \<open>insertPoint\<close> reads the fields \<open>x\<close> and \<open>y\<close> of the two neighbours and stores
  the new vertex as an array of the two means.
\<close>

definition insertPoint :: "'p feature \<Rightarrow> int \<Rightarrow> error + bool \<times> 'p feature" where
  "insertPoint f index =
     (let pts = points f;
          p = nth_js pts index;
          prevP = nth_js pts (if index \<noteq> 0 then index - 1 else int (length pts) - 1)
      in if truthy p \<and> truthy prevP then
           (case (get_prop p ''x'', get_prop prevP ''x'', get_prop p ''y'', get_prop prevP ''y'') of
              (Inr px, Inr qx, Inr py, Inr qy) \<Rightarrow>
                let newP = Arr [Num (num_half (num_add (to_number px) (to_number qx))),
                                Num (num_half (num_add (to_number py) (to_number qy)))]
                in Inr (True, f\<lparr>points := splice pts index 0 [newP]\<rparr>)
            | _ \<Rightarrow> Inl TypeError)
         else Inr (False, f))"

definition closePath :: "'p feature \<Rightarrow> bool \<times> 'p feature" where
  "closePath f =
     (if length (points f) \<ge> 3 then (True, f\<lparr>isClosed := Some True\<rparr>) else (False, f))"

text \<open>
  \<open>toFeature\<close>, up to the return of the helper: which helper is called, with
  which coordinates and properties. The second test is written \<open>points < 3\<close>,
  on the array itself.
\<close>

definition toFeature :: "'p feature \<Rightarrow> 'p geojson" where
  "toFeature f =
     (let pts = points f in
      if length pts < 2 then
        point (nth_js pts 0)
          \<lparr>prop_id = feature_id f, prop_type = None, prop_points = None,
           prop_isClosed = None, prop_other = otherProps f\<rparr>
      else if array_lt pts 3 \<or> isClosed f \<noteq> Some True then
        lineString pts
          \<lparr>prop_id = feature_id f, prop_type = None, prop_points = None,
           prop_isClosed = None, prop_other = otherProps f\<rparr>
      else
        polygon [pts @ [nth_js pts 0]]
          \<lparr>prop_id = feature_id f, prop_type = None, prop_points = None,
           prop_isClosed = isClosed f, prop_other = otherProps f\<rparr>)"


section \<open>The controls of draw-control.js\<close>



type_synonym props = "(string \<times> string) list"























subsection \<open>First class\<close>










subsection \<open>Second class\<close>










section \<open>Predicates used in the statements\<close>

text \<open>A closed feature has at least three points.\<close>

definition closed_inv :: "'p feature \<Rightarrow> bool" where
  "closed_inv f = (isClosed f = Some True \<longrightarrow> 3 \<le> length (points f))"






section \<open>Example values\<close>



text \<open>
  The object built by \<open>_addFeature\<close> before its first vertex, an open line of
  two vertices, a closed triangle, and a feature marked closed with two
  vertices only.
\<close>

definition blank :: "props feature" where
  "blank = \<lparr>feature_id = IdNum 1, ftype = ''Point'', points = [], isClosed = None,
             otherProps = [(''renderType'', ''Point'')]\<rparr>"

definition segment :: "props feature" where
  "segment = \<lparr>feature_id = IdNum 5, ftype = ''LineString'',
      points = [Arr [Num (Fin 0), Num (Fin 0)], Arr [Num (Fin 2), Num (Fin 4)]],
      isClosed = None, otherProps = [(''renderType'', ''LineString'')]\<rparr>"

definition triangle :: "props feature" where
  "triangle = \<lparr>feature_id = IdNum 7, ftype = ''Polygon'',
      points = [Arr [Num (Fin 0), Num (Fin 0)], Arr [Num (Fin 1), Num (Fin 0)],
                Arr [Num (Fin 1), Num (Fin 1)]],
      isClosed = Some True, otherProps = [(''renderType'', ''Polygon'')]\<rparr>"

definition closed_pair :: "props feature" where
  "closed_pair = \<lparr>feature_id = IdNum 9, ftype = ''Polygon'',
      points = [Arr [Num (Fin 0), Num (Fin 0)], Arr [Num (Fin 1), Num (Fin 1)]],
      isClosed = Some True, otherProps = [(''renderType'', ''Polygon'')]\<rparr>"






section \<open>Arrays and lookups\<close>

lemma array_lt_two_or_more: "2 \<le> length xs \<Longrightarrow> \<not> array_lt xs n"
  by (cases xs rule: array_to_number.cases) (simp_all add: array_lt_def)

lemma nth_js_0: "nth_js (x # xs) 0 = x"
  by (simp add: nth_js_def)

lemma slice_butlast: "slice xs 0 (- 1) = butlast xs"
  by (cases "xs = []") (auto simp: slice_def butlast_conv_take nat_diff_distrib' max_def)

lemma splice_remove:
  "0 \<le> i \<Longrightarrow> i < int (length xs) \<Longrightarrow> splice xs i 1 [] = take (nat i) xs @ drop (Suc (nat i)) xs"
  by (auto simp: splice_def Let_def min_def max_def nat_add_distrib)

lemma splice_insert:
  "0 \<le> i \<Longrightarrow> i < int (length xs) \<Longrightarrow> splice xs i 0 [v] = take (nat i) xs @ v # drop (nat i) xs"
  by (auto simp: splice_def Let_def min_def max_def)

lemma get_prop_truthy: "truthy v \<Longrightarrow> \<exists>r. get_prop v k = Inr r"
  by (cases v) auto

lemma truthy_nth_js: "truthy (nth_js xs i) \<Longrightarrow> 0 \<le> i \<and> i < int (length xs)"
  by (auto simp: nth_js_def split: if_splits)




section \<open>Feature: export, hydration and the vertex operations\<close>

text \<open>
  What \<open>toFeature\<close> decides: the comparison \<open>points < 3\<close> is never true where it
  is evaluated, so two or more points with \<open>isClosed\<close> true give a polygon.
\<close>

lemma toFeature_kind:
  "toFeature f =
     (if length (points f) < 2 then
        point (nth_js (points f) 0)
          \<lparr>prop_id = feature_id f, prop_type = None, prop_points = None,
           prop_isClosed = None, prop_other = otherProps f\<rparr>
      else if isClosed f \<noteq> Some True then
        lineString (points f)
          \<lparr>prop_id = feature_id f, prop_type = None, prop_points = None,
           prop_isClosed = None, prop_other = otherProps f\<rparr>
      else
        polygon [points f @ [nth_js (points f) 0]]
          \<lparr>prop_id = feature_id f, prop_type = None, prop_points = None,
           prop_isClosed = Some True, prop_other = otherProps f\<rparr>)"
  by (simp add: toFeature_def Let_def array_lt_two_or_more)

lemma insertPoint_cases:
  fixes f :: "'p feature" and i :: int
  defines "q \<equiv> (if i \<noteq> 0 then i - 1 else int (length (points f)) - 1)"
  shows "insertPoint f i = Inr (False, f) \<and> \<not> (truthy (nth_js (points f) i) \<and> truthy (nth_js (points f) q))
   \<or> (\<exists>a b c d.
        get_prop (nth_js (points f) i) ''x'' = Inr a \<and> get_prop (nth_js (points f) q) ''x'' = Inr b \<and>
        get_prop (nth_js (points f) i) ''y'' = Inr c \<and> get_prop (nth_js (points f) q) ''y'' = Inr d \<and>
        insertPoint f i = Inr (True, f\<lparr>points := take (nat i) (points f) @
            Arr [Num (num_half (num_add (to_number a) (to_number b))),
                 Num (num_half (num_add (to_number c) (to_number d)))] # drop (nat i) (points f)\<rparr>)
        \<and> 0 \<le> i \<and> i < int (length (points f))
        \<and> truthy (nth_js (points f) i) \<and> truthy (nth_js (points f) q))"
proof (cases "truthy (nth_js (points f) i) \<and> truthy (nth_js (points f) q)")
  case False
  then show ?thesis by (auto simp: insertPoint_def Let_def q_def)
next
  case True
  then have rng: "0 \<le> i" "i < int (length (points f))"
    using truthy_nth_js by blast+
  from True obtain a b c d where gp:
    "get_prop (nth_js (points f) i) ''x'' = Inr a"
    "get_prop (nth_js (points f) q) ''x'' = Inr b"
    "get_prop (nth_js (points f) i) ''y'' = Inr c"
    "get_prop (nth_js (points f) q) ''y'' = Inr d"
    using get_prop_truthy by meson
  have "insertPoint f i = Inr (True, f\<lparr>points := take (nat i) (points f) @
            Arr [Num (num_half (num_add (to_number a) (to_number b))),
                 Num (num_half (num_add (to_number c) (to_number d)))] # drop (nat i) (points f)\<rparr>)"
    using True rng gp unfolding q_def by (simp add: insertPoint_def Let_def splice_insert)
  with True rng gp show ?thesis by blast
qed

text \<open>
  Claim C1: the exported kind is a point below two points, a line below three
  points or when not closed, a polygon otherwise. The code departs from this on
  a feature of exactly two points marked closed: it exports a polygon whose ring
  has three positions.
\<close>

theorem toFeature_two_points_closed:
  "geometry (toFeature closed_pair) =
     Polygon [[Arr [Num (Fin 0), Num (Fin 0)], Arr [Num (Fin 1), Num (Fin 1)],
               Arr [Num (Fin 0), Num (Fin 0)]]]"
  by (simp add: toFeature_def closed_pair_def Let_def array_lt_def polygon_def nth_js_def)

text \<open>
  Claim C2: \<open>insertPoint\<close> inserts the midpoint of the vertex at the index and
  its predecessor. On vertices stored as arrays, which is how \<open>addPoint\<close> and
  \<open>fromFeature\<close> store them, the fields \<open>x\<close> and \<open>y\<close> are missing and the
  inserted vertex is \<open>[NaN, NaN]\<close>.
\<close>

theorem insertPoint_array_vertices:
  "insertPoint segment 1 =
     Inr (True, segment\<lparr>points :=
       [Arr [Num (Fin 0), Num (Fin 0)], Arr [Num NaN, Num NaN], Arr [Num (Fin 2), Num (Fin 4)]]\<rparr>)"
  by (simp add: insertPoint_def segment_def Let_def nth_js_def splice_def)

text \<open>
  On objects with fields \<open>x\<close> and \<open>y\<close> the means are computed, and the new vertex
  is stored as an array; with a single vertex, index 0 finds the vertex itself
  on both sides and the call succeeds.
\<close>

lemma insertPoint_between_arrays:
  fixes f :: "'p feature"
  assumes "nth_js (points f) i = Arr a"
    and "nth_js (points f) (if i \<noteq> 0 then i - 1 else int (length (points f)) - 1) = Arr b"
  shows "insertPoint f i =
     Inr (True, f\<lparr>points := take (nat i) (points f) @ Arr [Num NaN, Num NaN] # drop (nat i) (points f)\<rparr>)"
proof -
  have "truthy (nth_js (points f) i)" using assms(1) by simp
  then have "0 \<le> i" "i < int (length (points f))" using truthy_nth_js by blast+
  then show ?thesis
    using assms by (simp add: insertPoint_def Let_def splice_insert)
qed

lemma insertPoint_object_vertices:
  "insertPoint \<lparr>feature_id = IdNum 1, ftype = ''LineString'',
       points = [Obj [(''x'', Fin 0), (''y'', Fin 0)], Obj [(''x'', Fin 2), (''y'', Fin 4)]],
       isClosed = None, otherProps = ()\<rparr> 0
   = Inr (True, \<lparr>feature_id = IdNum 1, ftype = ''LineString'',
       points = [Arr [Num (Fin 1), Num (Fin 2)],
                 Obj [(''x'', Fin 0), (''y'', Fin 0)], Obj [(''x'', Fin 2), (''y'', Fin 4)]],
       isClosed = None, otherProps = ()\<rparr>)"
  by (simp add: insertPoint_def Let_def nth_js_def splice_def)

lemma insertPoint_single_vertex:
  "insertPoint \<lparr>feature_id = IdNum 1, ftype = ''Point'',
       points = [Obj [(''x'', Fin 3), (''y'', Fin 5)]],
       isClosed = None, otherProps = ()\<rparr> 0
   = Inr (True, \<lparr>feature_id = IdNum 1, ftype = ''Point'',
       points = [Arr [Num (Fin 3), Num (Fin 5)], Obj [(''x'', Fin 3), (''y'', Fin 5)]],
       isClosed = None, otherProps = ()\<rparr>)"
  by (simp add: insertPoint_def Let_def nth_js_def splice_def)

text \<open>
  Claim C3: exporting and hydrating again gives back the points when the export
  is a line, and gives back the points with \<open>isClosed\<close> true when the export is
  a polygon, whose ring is the points followed by the first of them.
\<close>

theorem toFeature_fromFeature_roundtrip:
  "(geometry (toFeature f) = LineString cs \<longrightarrow>
      cs = points f \<and>
      (\<exists>g. fromFeature (toFeature f) = Inr (Some g) \<and> points g = points f)) \<and>
   (geometry (toFeature f) = Polygon rs \<longrightarrow>
      rs = [points f @ [hd (points f)]] \<and>
      (\<exists>g. fromFeature (toFeature f) = Inr (Some g) \<and> points g = points f \<and>
           isClosed g = Some True))"
  by (cases "points f")
     (auto simp: toFeature_kind fromFeature_def new_Feature_def point_def lineString_def
        polygon_def slice_butlast nth_js_0 Let_def)

theorem toFeature_fromFeature_roundtrip_witness:
  "geometry (toFeature segment) = LineString (points segment) \<and>
   (\<exists>g. fromFeature (toFeature segment) = Inr (Some g) \<and> points g = points segment) \<and>
   geometry (toFeature triangle) = Polygon [points triangle @ [hd (points triangle)]] \<and>
   (\<exists>g. fromFeature (toFeature triangle) = Inr (Some g) \<and> points g = points triangle \<and>
        isClosed g = Some True)"
proof -
  have l: "geometry (toFeature segment) = LineString (points segment)"
    by (simp add: toFeature_kind segment_def lineString_def)
  have p: "geometry (toFeature triangle) = Polygon [points triangle @ [hd (points triangle)]]"
    by (simp add: toFeature_kind triangle_def polygon_def nth_js_def)
  show ?thesis
    using l p toFeature_fromFeature_roundtrip [of segment "points segment"]
      toFeature_fromFeature_roundtrip [of triangle _ "[points triangle @ [hd (points triangle)]]"]
    by simp
qed

text \<open>
  Claim C4: \<open>closePath\<close> returns true and sets \<open>isClosed\<close> to true if and only if
  there are at least three points; with fewer it returns false and leaves the
  feature as it was.
\<close>

theorem closePath_iff:
  "(fst (closePath f) \<longleftrightarrow> 3 \<le> length (points f)) \<and>
   (3 \<le> length (points f) \<longrightarrow> snd (closePath f) = f\<lparr>isClosed := Some True\<rparr>) \<and>
   (length (points f) < 3 \<longrightarrow> snd (closePath f) = f)"
  by (simp add: closePath_def)

theorem closePath_iff_witness:
  "3 \<le> length (points (triangle\<lparr>isClosed := None\<rparr>)) \<and>
   fst (closePath (triangle\<lparr>isClosed := None\<rparr>)) \<and>
   snd (closePath (triangle\<lparr>isClosed := None\<rparr>)) = triangle \<and>
   length (points segment) < 3 \<and> \<not> fst (closePath segment) \<and> snd (closePath segment) = segment"
  using closePath_iff [of "triangle\<lparr>isClosed := None\<rparr>"] closePath_iff [of segment]
  by (simp add: triangle_def segment_def)

text \<open>
  Claim C5, as amended: every vertex operation and \<open>closePath\<close> keep the
  invariant that a closed feature has at least three points; a successful
  \<open>removePoint\<close> that leaves fewer than three points sets \<open>isClosed\<close> to false;
  hydration gives the invariant for a polygon whose first ring has at least
  four positions and whose properties have no key \<open>points\<close>, and for a point
  or a line whose properties do not say \<open>isClosed\<close> true.
\<close>

theorem closed_inv_mutations:
  "(closed_inv f \<longrightarrow>
      closed_inv (snd (addPoint f pt)) \<and> closed_inv (snd (removePoint f i)) \<and>
      closed_inv (snd (replacePoint f i pt)) \<and> closed_inv (snd (closePath f)) \<and>
      (\<exists>r. insertPoint f i = Inr r \<and> closed_inv (snd r))) \<and>
   (fst (removePoint f i) \<and> length (points (snd (removePoint f i))) < 3 \<longrightarrow>
      isClosed (snd (removePoint f i)) = Some False) \<and>
   (geometry g = Polygon (ring # rings) \<and> 4 \<le> length ring \<and>
    properties g = Some ps \<and> prop_points ps = None \<longrightarrow>
      (\<exists>h. fromFeature g = Inr (Some h) \<and> points h = butlast ring \<and> closed_inv h)) \<and>
   ((geometry g = Point c \<or> geometry g = LineString cs) \<and>
    properties g = Some ps \<and> prop_isClosed ps \<noteq> Some True \<longrightarrow>
      (\<exists>h. fromFeature g = Inr (Some h) \<and> closed_inv h))"
proof -
  have ins: "\<exists>r. insertPoint f i = Inr r \<and> closed_inv (snd r)" if "closed_inv f"
    using insertPoint_cases [of f i] that by (auto simp: closed_inv_def)
  have mut: "closed_inv (snd (addPoint f pt)) \<and> closed_inv (snd (removePoint f i)) \<and>
      closed_inv (snd (replacePoint f i pt)) \<and> closed_inv (snd (closePath f))" if "closed_inv f"
    using that
    by (auto simp: closed_inv_def addPoint_def removePoint_def replacePoint_def closePath_def Let_def)
  have rm: "fst (removePoint f i) \<and> length (points (snd (removePoint f i))) < 3 \<longrightarrow>
      isClosed (snd (removePoint f i)) = Some False"
    by (auto simp: removePoint_def Let_def)
  have hp: "geometry g = Polygon (ring # rings) \<and> 4 \<le> length ring \<and>
    properties g = Some ps \<and> prop_points ps = None \<longrightarrow>
      (\<exists>h. fromFeature g = Inr (Some h) \<and> points h = butlast ring \<and> closed_inv h)"
    by (auto simp: fromFeature_def new_Feature_def closed_inv_def slice_butlast)
  have hl: "(geometry g = Point c \<or> geometry g = LineString cs) \<and>
    properties g = Some ps \<and> prop_isClosed ps \<noteq> Some True \<longrightarrow>
      (\<exists>h. fromFeature g = Inr (Some h) \<and> closed_inv h)"
    by (auto simp: fromFeature_def new_Feature_def closed_inv_def split: option.splits)
  from ins mut rm hp hl show ?thesis by blast
qed

theorem closed_inv_mutations_witness:
  "closed_inv triangle \<and>
   closed_inv (snd (removePoint triangle 0)) \<and>
   fst (removePoint triangle 0) \<and> length (points (snd (removePoint triangle 0))) < 3 \<and>
   isClosed (snd (removePoint triangle 0)) = Some False \<and>
   geometry (toFeature triangle) =
     Polygon ((points triangle @ [hd (points triangle)]) # []) \<and>
   4 \<le> length (points triangle @ [hd (points triangle)]) \<and>
   (\<exists>ps. properties (toFeature triangle) = Some ps \<and> prop_points ps = None) \<and>
   (\<exists>h. fromFeature (toFeature triangle) = Inr (Some h) \<and> points h = points triangle \<and>
        closed_inv h) \<and>
   geometry (toFeature segment) = LineString (points segment) \<and>
   (\<exists>ps. properties (toFeature segment) = Some ps \<and> prop_isClosed ps \<noteq> Some True) \<and>
   (\<exists>h. fromFeature (toFeature segment) = Inr (Some h) \<and> closed_inv h)"
proof -
  define pt where "pt = \<lparr>prop_id = IdNum 7, prop_type = None, prop_points = None,
      prop_isClosed = Some True, prop_other = [(''renderType'', ''Polygon'')]\<rparr>"
  define pl where "pl = \<lparr>prop_id = IdNum 5, prop_type = None, prop_points = None,
      prop_isClosed = (None :: bool option), prop_other = [(''renderType'', ''LineString'')]\<rparr>"
  have c: "closed_inv triangle" by (simp add: closed_inv_def triangle_def)
  have r: "fst (removePoint triangle 0) \<and> length (points (snd (removePoint triangle 0))) < 3"
    by (simp add: removePoint_def triangle_def splice_def Let_def)
  have p: "geometry (toFeature triangle) = Polygon ((points triangle @ [hd (points triangle)]) # [])"
    "4 \<le> length (points triangle @ [hd (points triangle)])"
    "properties (toFeature triangle) = Some pt" "prop_points pt = None"
    by (simp_all add: toFeature_kind triangle_def polygon_def nth_js_def pt_def)
  have l: "geometry (toFeature segment) = LineString (points segment)"
    "properties (toFeature segment) = Some pl" "prop_isClosed pl \<noteq> Some True"
    by (simp_all add: toFeature_kind segment_def lineString_def pl_def)
  have b: "butlast (points triangle @ [hd (points triangle)]) = points triangle"
    by simp
  from closed_inv_mutations [of triangle "Arr []" 0 "toFeature triangle"
         "points triangle @ [hd (points triangle)]" "[]" pt] c r p
  have t: "closed_inv (snd (removePoint triangle 0)) \<and>
      isClosed (snd (removePoint triangle 0)) = Some False \<and>
      (\<exists>h. fromFeature (toFeature triangle) = Inr (Some h) \<and> points h = points triangle \<and>
        closed_inv h)"
    unfolding b by blast
  from closed_inv_mutations [of triangle "Arr []" 0 "toFeature segment" _ _ pl Undefined
         "points segment"] l
  have u: "\<exists>h. fromFeature (toFeature segment) = Inr (Some h) \<and> closed_inv h"
    by blast
  from c r p l t u show ?thesis by blast
qed

text \<open>
  Claim C5 as first stated also covers hydration without any condition: a
  polygon whose ring has three positions hydrates to a closed feature of two
  points.
\<close>

theorem hydration_breaks_closed_inv:
  "fromFeature \<lparr>geometry = Polygon [[Arr [Num (Fin 0), Num (Fin 0)], Arr [Num (Fin 1), Num (Fin 1)],
                                      Arr [Num (Fin 0), Num (Fin 0)]]],
                properties = Some \<lparr>prop_id = IdNum 1, prop_type = None, prop_points = None,
                                   prop_isClosed = None, prop_other = ()\<rparr>\<rparr>
   = Inr (Some \<lparr>feature_id = IdNum 1, ftype = ''Polygon'',
                points = [Arr [Num (Fin 0), Num (Fin 0)], Arr [Num (Fin 1), Num (Fin 1)]],
                isClosed = Some True, otherProps = ()\<rparr>) \<and>
   \<not> closed_inv \<lparr>feature_id = IdNum 1, ftype = ''Polygon'',
                points = [Arr [Num (Fin 0), Num (Fin 0)], Arr [Num (Fin 1), Num (Fin 1)]],
                isClosed = Some True, otherProps = ()\<rparr>"
  by (simp add: fromFeature_def new_Feature_def slice_def closed_inv_def)

text \<open>
  A key \<open>points\<close> in the properties replaces the ring, whatever its length, and
  properties that are \<open>null\<close> make \<open>fromFeature\<close> throw.
\<close>

lemma fromFeature_points_key:
  "fromFeature \<lparr>geometry = Polygon [[Arr [Num (Fin 0), Num (Fin 0)], Arr [Num (Fin 1), Num (Fin 0)],
                                      Arr [Num (Fin 1), Num (Fin 1)], Arr [Num (Fin 0), Num (Fin 0)]]],
                properties = Some \<lparr>prop_id = IdNum 1, prop_type = None,
                                   prop_points = Some [Arr [Num (Fin 5), Num (Fin 5)]],
                                   prop_isClosed = None, prop_other = ()\<rparr>\<rparr>
   = Inr (Some \<lparr>feature_id = IdNum 1, ftype = ''Polygon'',
                points = [Arr [Num (Fin 5), Num (Fin 5)]],
                isClosed = Some True, otherProps = ()\<rparr>)"
  by (simp add: fromFeature_def new_Feature_def)

lemma fromFeature_null_properties:
  "fromFeature \<lparr>geometry = g, properties = None\<rparr> = Inl TypeError"
  by (simp add: fromFeature_def)

text \<open>
  Claim C6: \<open>removePoint\<close>, \<open>replacePoint\<close> and \<open>insertPoint\<close> never throw; with
  an index outside the array they return false and leave the feature as it
  was; they return true exactly when they have removed, written or inserted a
  vertex.
\<close>

theorem mutations_fail_unchanged:
  "(fst (removePoint f i) \<longleftrightarrow> 0 \<le> i \<and> i < int (length (points f))) \<and>
   (\<not> fst (removePoint f i) \<longrightarrow> snd (removePoint f i) = f) \<and>
   (fst (removePoint f i) \<longrightarrow>
      points (snd (removePoint f i)) = take (nat i) (points f) @ drop (Suc (nat i)) (points f)) \<and>
   (fst (replacePoint f i pt) \<longleftrightarrow> 0 \<le> i \<and> i < int (length (points f))) \<and>
   (\<not> fst (replacePoint f i pt) \<longrightarrow> snd (replacePoint f i pt) = f) \<and>
   (fst (replacePoint f i pt) \<longrightarrow>
      snd (replacePoint f i pt) = f\<lparr>points := (points f)[nat i := pt]\<rparr>) \<and>
   (\<exists>b f'. insertPoint f i = Inr (b, f') \<and>
      (\<not> (0 \<le> i \<and> i < int (length (points f))) \<longrightarrow> \<not> b) \<and>
      (\<not> b \<longrightarrow> f' = f) \<and>
      (b \<longrightarrow> (\<exists>v. f' = f\<lparr>points := take (nat i) (points f) @ v # drop (nat i) (points f)\<rparr>)))"
proof -
  have rm: "(fst (removePoint f i) \<longleftrightarrow> 0 \<le> i \<and> i < int (length (points f))) \<and>
   (\<not> fst (removePoint f i) \<longrightarrow> snd (removePoint f i) = f) \<and>
   (fst (removePoint f i) \<longrightarrow>
      points (snd (removePoint f i)) = take (nat i) (points f) @ drop (Suc (nat i)) (points f))"
    by (simp add: removePoint_def Let_def splice_remove)
  have rp: "(fst (replacePoint f i pt) \<longleftrightarrow> 0 \<le> i \<and> i < int (length (points f))) \<and>
   (\<not> fst (replacePoint f i pt) \<longrightarrow> snd (replacePoint f i pt) = f) \<and>
   (fst (replacePoint f i pt) \<longrightarrow>
      snd (replacePoint f i pt) = f\<lparr>points := (points f)[nat i := pt]\<rparr>)"
    by (simp add: replacePoint_def)
  have ins: "\<exists>b f'. insertPoint f i = Inr (b, f') \<and>
      (\<not> (0 \<le> i \<and> i < int (length (points f))) \<longrightarrow> \<not> b) \<and>
      (\<not> b \<longrightarrow> f' = f) \<and>
      (b \<longrightarrow> (\<exists>v. f' = f\<lparr>points := take (nat i) (points f) @ v # drop (nat i) (points f)\<rparr>))"
    using insertPoint_cases [of f i] by auto
  from rm rp ins show ?thesis by blast
qed

theorem mutations_fail_unchanged_witness:
  "\<not> (0 \<le> (5::int) \<and> 5 < int (length (points segment))) \<and>
   \<not> fst (removePoint segment 5) \<and> snd (removePoint segment 5) = segment \<and>
   \<not> fst (replacePoint segment 5 Null) \<and> snd (replacePoint segment 5 Null) = segment \<and>
   insertPoint segment 5 = Inr (False, segment) \<and>
   fst (removePoint segment 1) \<and>
   points (snd (removePoint segment 1)) = [Arr [Num (Fin 0), Num (Fin 0)]] \<and>
   fst (replacePoint segment 1 Null) \<and>
   snd (replacePoint segment 1 Null) = segment\<lparr>points := [Arr [Num (Fin 0), Num (Fin 0)], Null]\<rparr>"
proof -
  have o: "\<not> (0 \<le> (5::int) \<and> 5 < int (length (points segment)))"
    by (simp add: segment_def)
  have i: "0 \<le> (1::int) \<and> 1 < int (length (points segment))"
    by (simp add: segment_def)
  have p: "points segment = [Arr [Num (Fin 0), Num (Fin 0)], Arr [Num (Fin 2), Num (Fin 4)]]"
    by (simp add: segment_def)
  from mutations_fail_unchanged [of segment 5 Null] o
  have a: "\<not> fst (removePoint segment 5) \<and> snd (removePoint segment 5) = segment \<and>
      \<not> fst (replacePoint segment 5 Null) \<and> snd (replacePoint segment 5 Null) = segment \<and>
      insertPoint segment 5 = Inr (False, segment)"
    by auto
  from mutations_fail_unchanged [of segment 1 Null] i
  have b: "fst (removePoint segment 1) \<and>
      points (snd (removePoint segment 1)) = take (nat 1) (points segment) @ drop (Suc (nat 1)) (points segment) \<and>
      fst (replacePoint segment 1 Null) \<and>
      snd (replacePoint segment 1 Null) = segment\<lparr>points := (points segment)[nat 1 := Null]\<rparr>"
    by blast
  from o a b show ?thesis by (simp add: p)
qed

text \<open>
  Claim C10: on a feature without points \<open>toFeature\<close> reads \<open>points[0]\<close>, which
  is \<open>undefined\<close>, and hands it to the point constructor; with at least one
  point every exported coordinate is a stored vertex.
\<close>

theorem toFeature_empty:
  "(points f = [] \<longrightarrow> geometry (toFeature f) = Point Undefined) \<and>
   (points f \<noteq> [] \<longrightarrow>
      geometry (toFeature f) = Point (hd (points f)) \<or>
      geometry (toFeature f) = LineString (points f) \<or>
      geometry (toFeature f) = Polygon [points f @ [hd (points f)]])"
  by (cases "points f")
     (auto simp: toFeature_kind point_def lineString_def polygon_def nth_js_def)

theorem toFeature_empty_witness:
  "points blank = [] \<and> geometry (toFeature blank) = Point Undefined \<and>
   points segment \<noteq> [] \<and> geometry (toFeature segment) = LineString (points segment)"
proof -
  have b: "points blank = []" by (simp add: blank_def)
  have s: "points segment \<noteq> []" by (simp add: segment_def)
  have n: "geometry (toFeature segment) \<noteq> Point (hd (points segment)) \<and>
           geometry (toFeature segment) \<noteq> Polygon [points segment @ [hd (points segment)]]"
    by (simp add: toFeature_kind segment_def lineString_def)
  show ?thesis
    using b s n toFeature_empty [of blank] toFeature_empty [of segment] by blast
qed

section \<open>The controls: lookups, exports and the handlers one by one\<close>


























section \<open>The controls: drag, click and commit\<close>










end
